theory Spec2Isabelle
  imports Complex_Main
begin

section \<open>Black-Scholes calculator of \<open>script.js\<close>\<close>

text \<open>
  The calculator class \<open>BlackScholesCalculator\<close> and the profit-and-loss part of
  \<open>OptionsAnalyzerUI\<close> are embedded function by function. A JavaScript Number is
  modelled as a \<^typ>\<open>real\<close>: the arithmetic is exact, and \<open>NaN\<close> and the infinities do
  not exist. A quotient whose divisor is zero is therefore outside the model (HOL gives
  \<open>x / 0 = 0\<close>, JavaScript gives an infinity or \<open>NaN\<close>), and so is the logarithm of a
  number that is not positive; a statement below that says what such a quotient is
  carries the hypothesis that keeps the divisor away from zero. Where a claim is about
  the last bit of a result, the rounding of the source's arithmetic to IEEE 754 binary64
  is written out (\<open>binary64\<close> below).
  A value that may be \<open>null\<close> is an \<open>option\<close>, and the test \<open>!v\<close> of the source is
  \<open>\<not> truthy v\<close>.
\<close>

subsection \<open>NormalDistribution\<close>

definition normCDF :: "real \<Rightarrow> real" where
  "normCDF x0 =
     (let a1 = 0.254829592;
          a2 = - 0.284496736;
          a3 = 1.421413741;
          a4 = - 1.453152027;
          a5 = 1.061405429;
          p = 0.3275911;
          sign = (if x0 < 0 then - 1 else 1);
          x = \<bar>x0\<bar> / sqrt 2;
          t = 1 / (1 + p * x);
          y = 1 - (((((a5 * t + a4) * t) + a3) * t + a2) * t + a1) * t * exp (- x * x)
      in 0.5 * (1 + sign * y))"

definition normPDF :: "real \<Rightarrow> real" where
  "normPDF x = (1 / sqrt (2 * pi)) * exp (- 0.5 * x * x)"

subsection \<open>PricingEngine\<close>

text \<open>The option type is the string the form supplies; every function tests
  \<open>optionType === 'call'\<close> and treats any other value as a put.\<close>

definition blackScholesPrice ::
    "real \<Rightarrow> real \<Rightarrow> real \<Rightarrow> real \<Rightarrow> real \<Rightarrow> string \<Rightarrow> real \<Rightarrow> real" where
  "blackScholesPrice spotPrice strikePrice timeToExpiry riskFreeRate volatility optionType dividendYield =
     (if timeToExpiry \<le> 0 then
        (if optionType = ''call'' then max (spotPrice - strikePrice) 0
         else max (strikePrice - spotPrice) 0)
      else
        (let adjustedSpot = spotPrice * exp (- dividendYield * timeToExpiry);
             d1 = (ln (adjustedSpot / strikePrice)
                     + (riskFreeRate + 0.5 * volatility * volatility) * timeToExpiry)
                  / (volatility * sqrt timeToExpiry);
             d2 = d1 - volatility * sqrt timeToExpiry
         in if optionType = ''call'' then
              adjustedSpot * normCDF d1
                - strikePrice * exp (- riskFreeRate * timeToExpiry) * normCDF d2
            else
              strikePrice * exp (- riskFreeRate * timeToExpiry) * normCDF (- d2)
                - adjustedSpot * normCDF (- d1)))"

definition calculateDelta ::
    "real \<Rightarrow> real \<Rightarrow> real \<Rightarrow> real \<Rightarrow> real \<Rightarrow> string \<Rightarrow> real \<Rightarrow> real" where
  "calculateDelta spotPrice strikePrice timeToExpiry riskFreeRate volatility optionType dividendYield =
     (if timeToExpiry \<le> 0 then
        (if optionType = ''call'' then (if spotPrice > strikePrice then 1 else 0)
         else (if spotPrice < strikePrice then - 1 else 0))
      else
        (let adjustedSpot = spotPrice * exp (- dividendYield * timeToExpiry);
             d1 = (ln (adjustedSpot / strikePrice)
                     + (riskFreeRate + 0.5 * volatility * volatility) * timeToExpiry)
                  / (volatility * sqrt timeToExpiry)
         in if optionType = ''call'' then
              exp (- dividendYield * timeToExpiry) * normCDF d1
            else
              - exp (- dividendYield * timeToExpiry) * normCDF (- d1)))"

definition calculateGamma ::
    "real \<Rightarrow> real \<Rightarrow> real \<Rightarrow> real \<Rightarrow> real \<Rightarrow> real \<Rightarrow> real" where
  "calculateGamma spotPrice strikePrice timeToExpiry riskFreeRate volatility dividendYield =
     (if timeToExpiry \<le> 0 then 0
      else
        (let adjustedSpot = spotPrice * exp (- dividendYield * timeToExpiry);
             d1 = (ln (adjustedSpot / strikePrice)
                     + (riskFreeRate + 0.5 * volatility * volatility) * timeToExpiry)
                  / (volatility * sqrt timeToExpiry)
         in (exp (- dividendYield * timeToExpiry) * normPDF d1)
            / (spotPrice * volatility * sqrt timeToExpiry)))"

definition calculateTheta ::
    "real \<Rightarrow> real \<Rightarrow> real \<Rightarrow> real \<Rightarrow> real \<Rightarrow> string \<Rightarrow> real \<Rightarrow> real" where
  "calculateTheta spotPrice strikePrice timeToExpiry riskFreeRate volatility optionType dividendYield =
     (if timeToExpiry \<le> 0 then 0
      else
        (let adjustedSpot = spotPrice * exp (- dividendYield * timeToExpiry);
             d1 = (ln (adjustedSpot / strikePrice)
                     + (riskFreeRate + 0.5 * volatility * volatility) * timeToExpiry)
                  / (volatility * sqrt timeToExpiry);
             d2 = d1 - volatility * sqrt timeToExpiry;
             theta =
               (if optionType = ''call'' then
                  (- adjustedSpot * normPDF d1 * volatility) / (2 * sqrt timeToExpiry)
                    + dividendYield * adjustedSpot * normCDF d1
                    - riskFreeRate * strikePrice * exp (- riskFreeRate * timeToExpiry) * normCDF d2
                else
                  (- adjustedSpot * normPDF d1 * volatility) / (2 * sqrt timeToExpiry)
                    - dividendYield * adjustedSpot * normCDF (- d1)
                    + riskFreeRate * strikePrice * exp (- riskFreeRate * timeToExpiry) * normCDF (- d2))
         in theta / 365.25))"

definition calculateVega ::
    "real \<Rightarrow> real \<Rightarrow> real \<Rightarrow> real \<Rightarrow> real \<Rightarrow> real \<Rightarrow> real" where
  "calculateVega spotPrice strikePrice timeToExpiry riskFreeRate volatility dividendYield =
     (if timeToExpiry \<le> 0 then 0
      else
        (let adjustedSpot = spotPrice * exp (- dividendYield * timeToExpiry);
             d1 = (ln (adjustedSpot / strikePrice)
                     + (riskFreeRate + 0.5 * volatility * volatility) * timeToExpiry)
                  / (volatility * sqrt timeToExpiry)
         in adjustedSpot * normPDF d1 * sqrt timeToExpiry / 100))"

definition calculateRho ::
    "real \<Rightarrow> real \<Rightarrow> real \<Rightarrow> real \<Rightarrow> real \<Rightarrow> string \<Rightarrow> real \<Rightarrow> real" where
  "calculateRho spotPrice strikePrice timeToExpiry riskFreeRate volatility optionType dividendYield =
     (if timeToExpiry \<le> 0 then 0
      else
        (let adjustedSpot = spotPrice * exp (- dividendYield * timeToExpiry);
             d1 = (ln (adjustedSpot / strikePrice)
                     + (riskFreeRate + 0.5 * volatility * volatility) * timeToExpiry)
                  / (volatility * sqrt timeToExpiry);
             d2 = d1 - volatility * sqrt timeToExpiry;
             rho =
               (if optionType = ''call'' then
                  strikePrice * timeToExpiry * exp (- riskFreeRate * timeToExpiry) * normCDF d2
                else
                  - strikePrice * timeToExpiry * exp (- riskFreeRate * timeToExpiry) * normCDF (- d2))
         in rho / 100))"

text \<open>The two quantities that every pricing function computes under the names \<open>d1\<close>
  and \<open>d2\<close>, as functions of their own so that statements can refer to them.\<close>

definition bs_d1 :: "real \<Rightarrow> real \<Rightarrow> real \<Rightarrow> real \<Rightarrow> real \<Rightarrow> real \<Rightarrow> real" where
  "bs_d1 spotPrice strikePrice timeToExpiry riskFreeRate volatility dividendYield =
     (ln (spotPrice * exp (- dividendYield * timeToExpiry) / strikePrice)
        + (riskFreeRate + 0.5 * volatility * volatility) * timeToExpiry)
     / (volatility * sqrt timeToExpiry)"

definition bs_d2 :: "real \<Rightarrow> real \<Rightarrow> real \<Rightarrow> real \<Rightarrow> real \<Rightarrow> real \<Rightarrow> real" where
  "bs_d2 spotPrice strikePrice timeToExpiry riskFreeRate volatility dividendYield =
     bs_d1 spotPrice strikePrice timeToExpiry riskFreeRate volatility dividendYield
       - volatility * sqrt timeToExpiry"

text \<open>The correction term \<open>y\<close> of \<open>normCDF\<close> as a function of \<open>|x|\<close>.\<close>

definition cdfCorrection :: "real \<Rightarrow> real" where
  "cdfCorrection u =
     (let x = u / sqrt 2; t = 1 / (1 + 0.3275911 * x)
      in 1 - (((((1.061405429 * t + - 1.453152027) * t) + 1.421413741) * t
                + - 0.284496736) * t + 0.254829592) * t * exp (- x * x))"

subsection \<open>ImpliedVolatilitySolver\<close>

text \<open>The \<open>for\<close> loop of \<open>calculateImpliedVolatility\<close>; the first argument is the
  number of iterations still allowed. \<open>break\<close> leaves the loop for \<open>return null\<close>.\<close>

fun impliedVolatilityLoop ::
    "nat \<Rightarrow> real \<Rightarrow> real \<Rightarrow> real \<Rightarrow> real \<Rightarrow> real \<Rightarrow> string \<Rightarrow> real \<Rightarrow> real \<Rightarrow> real
      \<Rightarrow> real option" where
  "impliedVolatilityLoop 0 optionPrice spotPrice strikePrice timeToExpiry riskFreeRate
      optionType dividendYield tolerance volatility = None"
| "impliedVolatilityLoop (Suc n) optionPrice spotPrice strikePrice timeToExpiry riskFreeRate
      optionType dividendYield tolerance volatility =
     (let price = blackScholesPrice spotPrice strikePrice timeToExpiry riskFreeRate volatility
                    optionType dividendYield;
          vega = calculateVega spotPrice strikePrice timeToExpiry riskFreeRate volatility
                    dividendYield * 100;
          priceDiff = price - optionPrice
      in if \<bar>priceDiff\<bar> < tolerance then Some volatility
         else if vega = 0 then None
         else impliedVolatilityLoop n optionPrice spotPrice strikePrice timeToExpiry
                riskFreeRate optionType dividendYield tolerance
                (max 0.001 (min (volatility - priceDiff / vega) 5.0)))"

definition calculateImpliedVolatility ::
    "real \<Rightarrow> real \<Rightarrow> real \<Rightarrow> real \<Rightarrow> real \<Rightarrow> string \<Rightarrow> real \<Rightarrow> nat \<Rightarrow> real
      \<Rightarrow> real option" where
  "calculateImpliedVolatility optionPrice spotPrice strikePrice timeToExpiry riskFreeRate
      optionType dividendYield maxIterations tolerance =
     (if timeToExpiry \<le> 0 then None
      else impliedVolatilityLoop maxIterations optionPrice spotPrice strikePrice timeToExpiry
             riskFreeRate optionType dividendYield tolerance 0.3)"

text \<open>The default values of the last two parameters.\<close>

definition defaultMaxIterations :: nat where
  "defaultMaxIterations = 100"

definition defaultTolerance :: real where
  "defaultTolerance = 1 / 10 ^ 6"

subsection \<open>Data of an analysis\<close>

text \<open>A \<open>Date\<close> is its \<open>getTime()\<close>, milliseconds as an integer.\<close>

record OptionContract =
  underlyingSymbol :: string
  strikePrice :: real
  expirationDate :: int
  optionType :: string
  currentPrice :: "real option"

record MarketData =
  underlyingPrice :: real
  riskFreeRate :: real
  dividendYield :: real
  timestamp :: int

record AnalysisResult =
  theoreticalPrice :: real
  delta :: real
  gamma :: real
  theta :: real
  vega :: real
  rho :: real
  impliedVolatility :: real
  timeToExpiry :: real


text \<open>A template literal is kept as its pieces: literal text and numbers under
  \<open>toFixed\<close> with their number of digits.\<close>

datatype fragment = Text string | Fixed real nat

record TradingSignal =
  action :: string
  confidence :: real
  reasoning :: "fragment list"
  fairValue :: real
  marketPrice :: real
  edge :: real




text \<open>JavaScript truthiness of a number that may be \<open>null\<close>.\<close>

definition truthy :: "'a::zero option \<Rightarrow> bool" where
  "truthy v = (case v of None \<Rightarrow> False | Some x \<Rightarrow> x \<noteq> 0)"

subsection \<open>AnalysisOrchestrator\<close>

definition SECONDS_PER_YEAR :: real where
  "SECONDS_PER_YEAR = 365.25 * 24 * 3600"

definition timeToExpiration :: "int \<Rightarrow> int \<Rightarrow> real" where
  "timeToExpiration expirationDate' currentDate' =
     (let timeDiff = real_of_int (expirationDate' - currentDate')
      in max (timeDiff / (SECONDS_PER_YEAR * 1000)) 0.0)"

definition analyzeOption :: "OptionContract \<Rightarrow> MarketData \<Rightarrow> real option \<Rightarrow> AnalysisResult" where
  "analyzeOption contract marketData volatilityEstimate =
     (let timeToExpiry = timeToExpiration (expirationDate contract) (timestamp marketData);
          volatility = volatilityEstimate;
          volatility =
            (if \<not> truthy volatility \<and> truthy (currentPrice contract) then
               calculateImpliedVolatility (the (currentPrice contract))
                 (underlyingPrice marketData) (strikePrice contract) timeToExpiry
                 (riskFreeRate marketData) (optionType contract) (dividendYield marketData)
                 defaultMaxIterations defaultTolerance
             else volatility);
          volatility = (if \<not> truthy volatility then 0.3 else the volatility);
          theoreticalPrice =
            blackScholesPrice (underlyingPrice marketData) (strikePrice contract) timeToExpiry
              (riskFreeRate marketData) volatility (optionType contract) (dividendYield marketData);
          delta =
            calculateDelta (underlyingPrice marketData) (strikePrice contract) timeToExpiry
              (riskFreeRate marketData) volatility (optionType contract) (dividendYield marketData);
          gamma =
            calculateGamma (underlyingPrice marketData) (strikePrice contract) timeToExpiry
              (riskFreeRate marketData) volatility (dividendYield marketData);
          theta =
            calculateTheta (underlyingPrice marketData) (strikePrice contract) timeToExpiry
              (riskFreeRate marketData) volatility (optionType contract) (dividendYield marketData);
          vega =
            calculateVega (underlyingPrice marketData) (strikePrice contract) timeToExpiry
              (riskFreeRate marketData) volatility (dividendYield marketData);
          rho =
            calculateRho (underlyingPrice marketData) (strikePrice contract) timeToExpiry
              (riskFreeRate marketData) volatility (optionType contract) (dividendYield marketData)
      in \<lparr>theoreticalPrice = theoreticalPrice, delta = delta, gamma = gamma, theta = theta,
          vega = vega, rho = rho, impliedVolatility = volatility,
          timeToExpiry = timeToExpiry\<rparr>)"

subsection \<open>SignalClassifier\<close>

definition generateTradingSignal ::
    "OptionContract \<Rightarrow> MarketData \<Rightarrow> AnalysisResult \<Rightarrow> real \<Rightarrow> TradingSignal" where
  "generateTradingSignal contract marketData result edgeThreshold =
     (if \<not> truthy (currentPrice contract) then
        \<lparr>action = ''HOLD'', confidence = 0.0,
         reasoning = [Text ''No market price available for analysis''],
         fairValue = theoreticalPrice result, marketPrice = 0.0, edge = 0.0\<rparr>
      else
        (let fairValue = theoreticalPrice result;
             marketPrice = the (currentPrice contract);
             edge = (if marketPrice > 0 then (fairValue - marketPrice) / marketPrice else 0);
             minTimeToExpiry = 0.02
         in if timeToExpiry result < minTimeToExpiry then
              \<lparr>action = ''AVOID'', confidence = 0.8,
               reasoning = [Text ''Option expires too soon ('', Fixed (timeToExpiry result) 3,
                            Text '' years remaining)''],
               fairValue = fairValue, marketPrice = marketPrice, edge = edge\<rparr>
            else
              (let confidence = min (\<bar>edge\<bar> / edgeThreshold) 1.0;
                   (action, reasoning) =
                     (if edge > edgeThreshold then
                        (''BUY'',
                         [Text ''Option undervalued by '', Fixed (edge * 100) 1,
                          Text ''%. Fair value: $'', Fixed fairValue 2,
                          Text '' vs Market: $'', Fixed marketPrice 2])
                      else if edge < - edgeThreshold then
                        (''SELL'',
                         [Text ''Option overvalued by '', Fixed (\<bar>edge\<bar> * 100) 1,
                          Text ''%. Fair value: $'', Fixed fairValue 2,
                          Text '' vs Market: $'', Fixed marketPrice 2])
                      else
                        (''HOLD'',
                         [Text ''Option fairly valued (edge: '', Fixed (edge * 100) 1,
                          Text ''%). Fair value: $'', Fixed fairValue 2,
                          Text '' vs Market: $'', Fixed marketPrice 2]));
                   reasoning = reasoning @
                     [Text (CHR 0x0A # ''Greeks - Delta: ''), Fixed (delta result) 3,
                      Text '', Theta: '', Fixed (theta result) 2,
                      Text '', Vega: '', Fixed (vega result) 2]
               in \<lparr>action = action,
                   confidence = (if action = ''HOLD'' then 1.0 - confidence else confidence),
                   reasoning = reasoning,
                   fairValue = fairValue, marketPrice = marketPrice, edge = edge\<rparr>)))"

subsection \<open>PnLProjector\<close>




subsection \<open>Rounding of a Number\<close>




subsection \<open>Auxiliary notions for the statements\<close>





text \<open>One pass of the solver's loop body that neither returns nor breaks replaces the
  volatility by \<open>newtonUpdate\<close> of it; \<open>impliedVolatilityIterate k\<close> is the volatility
  after \<open>k\<close> such passes from the initial guess 0.3. Once a pass has returned or met a
  vega of 0 the loop is over, and the later iterates play no part.\<close>

definition newtonUpdate ::
    "real \<Rightarrow> real \<Rightarrow> real \<Rightarrow> real \<Rightarrow> real \<Rightarrow> string \<Rightarrow> real \<Rightarrow> real \<Rightarrow> real" where
  "newtonUpdate P S K T r ty q vol =
     max 0.001 (min (vol - (blackScholesPrice S K T r vol ty q - P)
                            / (calculateVega S K T r vol q * 100)) 5.0)"

definition impliedVolatilityIterate ::
    "nat \<Rightarrow> real \<Rightarrow> real \<Rightarrow> real \<Rightarrow> real \<Rightarrow> real \<Rightarrow> string \<Rightarrow> real \<Rightarrow> real" where
  "impliedVolatilityIterate k P S K T r ty q = (newtonUpdate P S K T r ty q ^^ k) 0.3"

text \<open>The volatility precedence in the words of the specification: a given and truthy
  estimate is used; else, if a current price is given, the solver is tried on it and its
  result used on success; else, or if the solver fails, the default 0.30 is used.\<close>

definition resolveVolatility ::
    "real option \<Rightarrow> real option \<Rightarrow> (real \<Rightarrow> real option) \<Rightarrow> real" where
  "resolveVolatility estimate price solve =
     (if truthy estimate then the estimate
      else case price of
             Some p \<Rightarrow> (case solve p of Some \<sigma> \<Rightarrow> \<sigma> | None \<Rightarrow> 0.30)
           | None \<Rightarrow> 0.30)"

text \<open>The result record whose price and five Greeks are all computed at one volatility
  \<open>\<sigma>\<close> and one time to expiry \<open>T\<close>, and which carries both.\<close>

definition analysisAt :: "OptionContract \<Rightarrow> MarketData \<Rightarrow> real \<Rightarrow> real \<Rightarrow> AnalysisResult" where
  "analysisAt contract marketData \<sigma> T =
     \<lparr>theoreticalPrice =
        blackScholesPrice (underlyingPrice marketData) (strikePrice contract) T
          (riskFreeRate marketData) \<sigma> (optionType contract) (dividendYield marketData),
      delta =
        calculateDelta (underlyingPrice marketData) (strikePrice contract) T
          (riskFreeRate marketData) \<sigma> (optionType contract) (dividendYield marketData),
      gamma =
        calculateGamma (underlyingPrice marketData) (strikePrice contract) T
          (riskFreeRate marketData) \<sigma> (dividendYield marketData),
      theta =
        calculateTheta (underlyingPrice marketData) (strikePrice contract) T
          (riskFreeRate marketData) \<sigma> (optionType contract) (dividendYield marketData),
      vega =
        calculateVega (underlyingPrice marketData) (strikePrice contract) T
          (riskFreeRate marketData) \<sigma> (dividendYield marketData),
      rho =
        calculateRho (underlyingPrice marketData) (strikePrice contract) T
          (riskFreeRate marketData) \<sigma> (optionType contract) (dividendYield marketData),
      impliedVolatility = \<sigma>,
      timeToExpiry = T\<rparr>"

text \<open>Sample inputs for the concrete instances below.\<close>

definition exampleContract :: "real option \<Rightarrow> OptionContract" where
  "exampleContract price =
     \<lparr>underlyingSymbol = ''AAPL'', strikePrice = 100, expirationDate = 1767225600000,
      optionType = ''call'', currentPrice = price\<rparr>"

definition exampleMarketData :: MarketData where
  "exampleMarketData =
     \<lparr>underlyingPrice = 100, riskFreeRate = 0.05, dividendYield = 0,
      timestamp = 1751328000000\<rparr>"

definition exampleResult :: "real \<Rightarrow> real \<Rightarrow> AnalysisResult" where
  "exampleResult price T =
     \<lparr>theoreticalPrice = price, delta = 0.5, gamma = 0.02, theta = - 0.02, vega = 0.28,
      rho = 0.2, impliedVolatility = 0.2, timeToExpiry = T\<rparr>"



section \<open>Properties\<close>

lemma normCDF_correction:
  "normCDF x = 0.5 * (1 + (if x < 0 then - 1 else 1) * cdfCorrection \<bar>x\<bar>)"
  unfolding normCDF_def cdfCorrection_def Let_def by (rule refl)

lemma cdfCorrection_0: "cdfCorrection 0 = 1 / 10 ^ 9"
  by (simp add: cdfCorrection_def Let_def)

lemma normCDF_0: "normCDF 0 = 0.5000000005"
  by (simp add: normCDF_correction cdfCorrection_0)

lemma normCDF_reflect: "x \<noteq> 0 \<Longrightarrow> normCDF (- x) = 1 - normCDF x"
  by (cases "x < 0") (simp_all add: normCDF_correction field_simps)


lemma price_call_unfold:
  "0 < T \<Longrightarrow> blackScholesPrice S K T r \<sigma> ''call'' q =
     S * exp (- q * T) * normCDF (bs_d1 S K T r \<sigma> q)
       - K * exp (- r * T) * normCDF (bs_d2 S K T r \<sigma> q)"
  by (simp add: blackScholesPrice_def bs_d1_def bs_d2_def Let_def)

lemma price_put_unfold:
  "0 < T \<Longrightarrow> ty \<noteq> ''call'' \<Longrightarrow> blackScholesPrice S K T r \<sigma> ty q =
     K * exp (- r * T) * normCDF (- bs_d2 S K T r \<sigma> q)
       - S * exp (- q * T) * normCDF (- bs_d1 S K T r \<sigma> q)"
  by (simp add: blackScholesPrice_def bs_d1_def bs_d2_def Let_def)


subsection \<open>C1: values at and after expiry\<close>

text \<open>
  Claim C1. When the time to expiry is zero or negative, the price is the intrinsic value
  (\<open>max(S - K, 0)\<close> for a call, \<open>max(K - S, 0)\<close> for a put), delta is 1 or 0 for a call
  according to \<open>S > K\<close> and -1 or 0 for a put according to \<open>S < K\<close>, and gamma, theta,
  vega and rho are 0. No condition on the spot, the strike, the rate, the volatility or
  the dividend yield is needed.
\<close>

theorem expiry_boundary:
  "T \<le> 0 \<Longrightarrow>
     blackScholesPrice S K T r \<sigma> ''call'' q = max (S - K) 0 \<and>
     blackScholesPrice S K T r \<sigma> ''put'' q = max (K - S) 0 \<and>
     calculateDelta S K T r \<sigma> ''call'' q = (if S > K then 1 else 0) \<and>
     calculateDelta S K T r \<sigma> ''put'' q = (if S < K then - 1 else 0) \<and>
     calculateGamma S K T r \<sigma> q = 0 \<and>
     calculateTheta S K T r \<sigma> ty q = 0 \<and>
     calculateVega S K T r \<sigma> q = 0 \<and>
     calculateRho S K T r \<sigma> ty q = 0"
  by (simp add: blackScholesPrice_def calculateDelta_def calculateGamma_def
        calculateTheta_def calculateVega_def calculateRho_def)

theorem expiry_boundary_witness:
  "(0::real) \<le> 0 \<and>
     blackScholesPrice 110 100 0 0.05 0.2 ''call'' 0 = 10 \<and>
     blackScholesPrice 110 100 0 0.05 0.2 ''put'' 0 = 0 \<and>
     calculateDelta 110 100 0 0.05 0.2 ''call'' 0 = 1 \<and>
     calculateDelta 110 100 0 0.05 0.2 ''put'' 0 = 0 \<and>
     calculateGamma 110 100 0 0.05 0.2 0 = 0 \<and>
     calculateTheta 110 100 0 0.05 0.2 ''put'' 0 = 0 \<and>
     calculateVega 110 100 0 0.05 0.2 0 = 0 \<and>
     calculateRho 110 100 0 0.05 0.2 ''put'' 0 = 0"
  using expiry_boundary [of 0 110 100 "0.05" "0.2" 0 "''put''"] by simp

subsection \<open>C8: symmetry of the normal distribution function\<close>

text \<open>
  Claim C8, as amended. The symmetry \<open>cdf(-x) = 1 - cdf(x)\<close> holds within a tolerance,
  not exactly. For every \<open>x\<close> other than 0 the two sides are built from the same
  correction term with opposite signs and agree within \<open>10\<^sup>-\<^sup>1\<^sup>5\<close>. At 0 the sign is
  taken as \<open>+1\<close> on both sides and the correction term is \<open>10\<^sup>-\<^sup>9\<close>, because the five
  coefficients add up to \<open>0.999999999\<close>: \<open>cdf(-0)\<close> exceeds \<open>1 - cdf(0)\<close> by
  \<open>10\<^sup>-\<^sup>9\<close>, and \<open>cdf(0)\<close> is \<open>0.5000000005\<close>, each within \<open>10\<^sup>-\<^sup>1\<^sup>5\<close>. The margin
  \<open>10\<^sup>-\<^sup>1\<^sup>5\<close> lies far below the defect at 0 and above the rounding of the last
  additions and halvings of the source, so that the statement does not rest on the
  arithmetic being exact.
\<close>

theorem normCDF_symmetry:
  "(x \<noteq> 0 \<longrightarrow> \<bar>normCDF (- x) - (1 - normCDF x)\<bar> \<le> 1 / 10 ^ 15) \<and>
   \<bar>normCDF (- 0) - (1 - normCDF 0) - 1 / 10 ^ 9\<bar> \<le> 1 / 10 ^ 15 \<and>
   \<bar>normCDF 0 - 0.5000000005\<bar> \<le> 1 / 10 ^ 15"
  by (simp add: normCDF_reflect normCDF_0)

theorem normCDF_symmetry_witness:
  "(1::real) \<noteq> 0 \<and> \<bar>normCDF (- 1) - (1 - normCDF 1)\<bar> \<le> 1 / 10 ^ 15"
  using normCDF_symmetry [of 1] by simp

text \<open>
  Claim C8 as stated fails at \<open>x = 0\<close>: \<open>cdf(-0)\<close> and \<open>1 - cdf(0)\<close> differ, and
  \<open>cdf(0)\<close> is not \<open>0.5\<close>.
\<close>

theorem normCDF_symmetry_counterexample:
  "normCDF (- 0) \<noteq> 1 - normCDF 0 \<and> normCDF 0 \<noteq> 0.5"
  by (simp add: normCDF_0)

subsection \<open>C2: put-call parity\<close>




lemma signal_fields:
  assumes "currentPrice contract = Some p" and "p \<noteq> 0"
  shows "fairValue (generateTradingSignal contract marketData result thr) = theoreticalPrice result"
    and "marketPrice (generateTradingSignal contract marketData result thr) = p"
    and "edge (generateTradingSignal contract marketData result thr)
           = (if p > 0 then (theoreticalPrice result - p) / p else 0)"
  using assms by (simp_all add: generateTradingSignal_def truthy_def Let_def split: prod.splits)

lemma signal_avoid:
  assumes "currentPrice contract = Some p" and "p \<noteq> 0" and "timeToExpiry result < 0.02"
  shows "action (generateTradingSignal contract marketData result thr) = ''AVOID''"
    and "confidence (generateTradingSignal contract marketData result thr) = 0.8"
  using assms by (simp_all add: generateTradingSignal_def truthy_def Let_def)

lemma signal_action:
  assumes "currentPrice contract = Some p" and "p \<noteq> 0" and "\<not> timeToExpiry result < 0.02"
  shows "action (generateTradingSignal contract marketData result thr)
           = (let e = edge (generateTradingSignal contract marketData result thr)
              in if e > thr then ''BUY'' else if e < - thr then ''SELL'' else ''HOLD'')"
  using assms by (simp add: generateTradingSignal_def truthy_def Let_def)

lemma signal_confidence:
  assumes "currentPrice contract = Some p" and "p \<noteq> 0" and "\<not> timeToExpiry result < 0.02"
  shows "confidence (generateTradingSignal contract marketData result thr)
           = (let e = edge (generateTradingSignal contract marketData result thr);
                  c = min (\<bar>e\<bar> / thr) 1
              in if action (generateTradingSignal contract marketData result thr) = ''HOLD''
                 then 1 - c else c)"
  using assms by (simp add: generateTradingSignal_def truthy_def Let_def)

subsection \<open>C9: no market price\<close>

text \<open>
  Claim C9. When the contract carries no current price, the signal is HOLD with
  confidence 0, edge 0 and market price 0, its fair value is the theoretical price of the
  result, and its rationale is the text "No market price available for analysis".
\<close>

theorem no_market_price_signal:
  "currentPrice contract = None \<Longrightarrow>
     generateTradingSignal contract marketData result edgeThreshold =
       \<lparr>action = ''HOLD'', confidence = 0,
        reasoning = [Text ''No market price available for analysis''],
        fairValue = theoreticalPrice result, marketPrice = 0, edge = 0\<rparr>"
  by (simp add: generateTradingSignal_def truthy_def)

theorem no_market_price_signal_witness:
  "currentPrice (exampleContract None) = None \<and>
   generateTradingSignal (exampleContract None) exampleMarketData (exampleResult 2.5 0.5) 0.1 =
       \<lparr>action = ''HOLD'', confidence = 0,
        reasoning = [Text ''No market price available for analysis''],
        fairValue = 2.5, marketPrice = 0, edge = 0\<rparr>"
  using no_market_price_signal [of "exampleContract None" exampleMarketData "exampleResult 2.5 0.5" "0.1"]
  by (simp add: exampleContract_def exampleResult_def)

subsection \<open>C10: a market price of zero\<close>

text \<open>
  Claim C10. When the contract's current price is exactly 0, the signal is the one
  returned for an absent price: HOLD with confidence 0, edge 0 and market price 0.
\<close>

theorem zero_market_price_signal:
  "currentPrice contract = Some 0 \<Longrightarrow>
     generateTradingSignal contract marketData result edgeThreshold =
       generateTradingSignal (contract\<lparr>currentPrice := None\<rparr>) marketData result edgeThreshold
     \<and> action (generateTradingSignal contract marketData result edgeThreshold) = ''HOLD''
     \<and> confidence (generateTradingSignal contract marketData result edgeThreshold) = 0
     \<and> edge (generateTradingSignal contract marketData result edgeThreshold) = 0
     \<and> marketPrice (generateTradingSignal contract marketData result edgeThreshold) = 0"
  by (simp add: generateTradingSignal_def truthy_def)

theorem zero_market_price_signal_witness:
  "currentPrice (exampleContract (Some 0)) = Some 0 \<and>
   generateTradingSignal (exampleContract (Some 0)) exampleMarketData (exampleResult 2.5 0.5) 0.1 =
     generateTradingSignal (exampleContract None) exampleMarketData (exampleResult 2.5 0.5) 0.1
   \<and> action (generateTradingSignal (exampleContract (Some 0)) exampleMarketData
               (exampleResult 2.5 0.5) 0.1) = ''HOLD''"
proof -
  have c: "currentPrice (exampleContract (Some 0)) = Some 0"
    by (simp add: exampleContract_def)
  have u: "(exampleContract (Some 0))\<lparr>currentPrice := None\<rparr> = exampleContract None"
    by (simp add: exampleContract_def)
  show ?thesis
    using c zero_market_price_signal [OF c, of exampleMarketData "exampleResult 2.5 0.5" "0.1",
            unfolded u]
    by blast
qed

subsection \<open>C3: classification with a market price\<close>

text \<open>
  Claim C3, as amended. With a market price present (not \<open>null\<close> and not 0): if the
  time to expiry of the result is below 0.02 the action is AVOID with confidence 0.8,
  whatever the edge and the threshold. Otherwise, with \<open>c = min(|edge| / edgeThreshold, 1)\<close>,
  the action is BUY exactly when \<open>edge > edgeThreshold\<close>, SELL exactly when
  \<open>edge < - edgeThreshold\<close> and not \<open>edge > edgeThreshold\<close> (the BUY test is made first;
  for a threshold that is not negative this is \<open>edge < - edgeThreshold\<close> alone), and HOLD
  otherwise; for a threshold other than 0 the confidence is \<open>c\<close> for BUY and SELL and
  \<open>1 - c\<close> for HOLD. The edge is \<open>(fairValue - marketPrice) / marketPrice\<close> for a
  positive market price and 0 for a negative one.
\<close>

theorem signal_classification:
  assumes "currentPrice contract = Some p" and "p \<noteq> 0"
  shows "let sig = generateTradingSignal contract marketData result thr;
             e = edge sig;
             c = min (\<bar>e\<bar> / thr) 1
         in e = (if p > 0 then (theoreticalPrice result - p) / p else 0) \<and>
            (timeToExpiry result < 0.02 \<longrightarrow> action sig = ''AVOID'' \<and> confidence sig = 0.8) \<and>
            (\<not> timeToExpiry result < 0.02 \<longrightarrow>
               (action sig = ''BUY'' \<longleftrightarrow> e > thr) \<and>
               (action sig = ''SELL'' \<longleftrightarrow> e < - thr \<and> \<not> e > thr) \<and>
               (action sig = ''HOLD'' \<longleftrightarrow> \<not> e > thr \<and> \<not> e < - thr) \<and>
               (0 \<le> thr \<longrightarrow> (action sig = ''SELL'' \<longleftrightarrow> e < - thr)) \<and>
               (thr \<noteq> 0 \<longrightarrow> confidence sig = (if action sig = ''HOLD'' then 1 - c else c)))"
proof -
  let ?sig = "generateTradingSignal contract marketData result thr"
  have e: "edge ?sig = (if p > 0 then (theoreticalPrice result - p) / p else 0)"
    using assms by (rule signal_fields)
  have avoid: "timeToExpiry result < 0.02 \<Longrightarrow> action ?sig = ''AVOID'' \<and> confidence ?sig = 0.8"
    using signal_avoid [OF assms] by simp
  have act: "\<not> timeToExpiry result < 0.02 \<Longrightarrow>
      action ?sig = (if edge ?sig > thr then ''BUY''
                     else if edge ?sig < - thr then ''SELL'' else ''HOLD'')"
    using signal_action [OF assms] by (simp add: Let_def)
  have conf: "\<not> timeToExpiry result < 0.02 \<Longrightarrow>
      confidence ?sig = (if action ?sig = ''HOLD'' then 1 - min (\<bar>edge ?sig\<bar> / thr) 1
                         else min (\<bar>edge ?sig\<bar> / thr) 1)"
    using signal_confidence [OF assms] by (simp add: Let_def)
  have acts: "\<not> timeToExpiry result < 0.02 \<Longrightarrow>
      (action ?sig = ''BUY'' \<longleftrightarrow> edge ?sig > thr) \<and>
      (action ?sig = ''SELL'' \<longleftrightarrow> edge ?sig < - thr \<and> \<not> edge ?sig > thr) \<and>
      (action ?sig = ''HOLD'' \<longleftrightarrow> \<not> edge ?sig > thr \<and> \<not> edge ?sig < - thr) \<and>
      (0 \<le> thr \<longrightarrow> (action ?sig = ''SELL'' \<longleftrightarrow> edge ?sig < - thr))"
    by (simp add: act)
  show ?thesis
    unfolding Let_def using e avoid acts conf by blast
qed

theorem signal_classification_witness:
  "currentPrice (exampleContract (Some 2)) = Some 2 \<and> (2::real) \<noteq> 0 \<and>
   \<not> timeToExpiry (exampleResult 2.5 0.5) < 0.02 \<and> (0::real) \<le> 0.1 \<and> (0.1::real) \<noteq> 0 \<and>
   edge (generateTradingSignal (exampleContract (Some 2)) exampleMarketData
          (exampleResult 2.5 0.5) 0.1) = 0.25 \<and>
   action (generateTradingSignal (exampleContract (Some 2)) exampleMarketData
          (exampleResult 2.5 0.5) 0.1) = ''BUY'' \<and>
   confidence (generateTradingSignal (exampleContract (Some 2)) exampleMarketData
          (exampleResult 2.5 0.5) 0.1) = 1 \<and>
   edge (generateTradingSignal (exampleContract (Some 2)) exampleMarketData
          (exampleResult 2.2 0.5) 0.1) = 0.1 \<and>
   action (generateTradingSignal (exampleContract (Some 2)) exampleMarketData
          (exampleResult 2.2 0.5) 0.1) = ''HOLD'' \<and>
   confidence (generateTradingSignal (exampleContract (Some 2)) exampleMarketData
          (exampleResult 2.2 0.5) 0.1) = 0 \<and>
   timeToExpiry (exampleResult 2.5 0.01) < 0.02 \<and>
   action (generateTradingSignal (exampleContract (Some 2)) exampleMarketData
          (exampleResult 2.5 0.01) 0.1) = ''AVOID'' \<and>
   confidence (generateTradingSignal (exampleContract (Some 2)) exampleMarketData
          (exampleResult 2.5 0.01) 0.1) = 0.8"
proof -
  have c: "currentPrice (exampleContract (Some 2)) = Some 2"
    by (simp add: exampleContract_def)
  have r: "theoreticalPrice (exampleResult x y) = x" "timeToExpiry (exampleResult x y) = y" for x y
    by (simp_all add: exampleResult_def)
  have buy:
    "edge (generateTradingSignal (exampleContract (Some 2)) exampleMarketData
          (exampleResult 2.5 0.5) 0.1) = 0.25 \<and>
     action (generateTradingSignal (exampleContract (Some 2)) exampleMarketData
          (exampleResult 2.5 0.5) 0.1) = ''BUY'' \<and>
     confidence (generateTradingSignal (exampleContract (Some 2)) exampleMarketData
          (exampleResult 2.5 0.5) 0.1) = 1"
    using signal_classification [OF c, of exampleMarketData "exampleResult 2.5 0.5" "0.1"]
    unfolding Let_def r by auto
  have hold:
    "edge (generateTradingSignal (exampleContract (Some 2)) exampleMarketData
          (exampleResult 2.2 0.5) 0.1) = 0.1 \<and>
     action (generateTradingSignal (exampleContract (Some 2)) exampleMarketData
          (exampleResult 2.2 0.5) 0.1) = ''HOLD'' \<and>
     confidence (generateTradingSignal (exampleContract (Some 2)) exampleMarketData
          (exampleResult 2.2 0.5) 0.1) = 0"
    using signal_classification [OF c, of exampleMarketData "exampleResult 2.2 0.5" "0.1"]
    unfolding Let_def r by auto
  have avoid:
    "action (generateTradingSignal (exampleContract (Some 2)) exampleMarketData
          (exampleResult 2.5 0.01) 0.1) = ''AVOID'' \<and>
     confidence (generateTradingSignal (exampleContract (Some 2)) exampleMarketData
          (exampleResult 2.5 0.01) 0.1) = 0.8"
    using signal_classification [OF c, of exampleMarketData "exampleResult 2.5 0.01" "0.1"]
    unfolding Let_def r by auto
  show ?thesis
    using c buy hold avoid unfolding r by simp
qed

text \<open>
  Claim C3 as stated fails for a negative threshold: with fair value and market price
  both 1 (edge 0) and \<open>edgeThreshold = -0.1\<close>, the edge is below \<open>- edgeThreshold\<close>, yet
  the action is BUY, not SELL.
\<close>

theorem signal_classification_counterexample:
  "\<not> timeToExpiry (exampleResult 1 0.5) < 0.02 \<and>
   edge (generateTradingSignal (exampleContract (Some 1)) exampleMarketData
          (exampleResult 1 0.5) (- 0.1)) < - (- 0.1) \<and>
   action (generateTradingSignal (exampleContract (Some 1)) exampleMarketData
          (exampleResult 1 0.5) (- 0.1)) = ''BUY''"
proof -
  have c: "currentPrice (exampleContract (Some 1)) = Some 1"
    by (simp add: exampleContract_def)
  have r: "theoreticalPrice (exampleResult 1 0.5) = 1" "timeToExpiry (exampleResult 1 0.5) = 0.5"
    by (simp_all add: exampleResult_def)
  have t: "\<not> timeToExpiry (exampleResult 1 0.5) < 0.02"
    unfolding r by simp
  have e: "edge (generateTradingSignal (exampleContract (Some 1)) exampleMarketData
          (exampleResult 1 0.5) (- 0.1)) = 0"
    using signal_fields(3) [OF c, of exampleMarketData "exampleResult 1 0.5" "- 0.1"]
    unfolding r by simp
  show ?thesis
    using t signal_action [OF c _ t, of exampleMarketData "- 0.1"] unfolding e Let_def by simp
qed

subsection \<open>C5: profit and loss at target prices\<close>











subsection \<open>C6: the implied-volatility solver\<close>

lemma loop_Suc:
  "impliedVolatilityLoop (Suc n) P S K T r ty q tol vol =
     (if \<bar>blackScholesPrice S K T r vol ty q - P\<bar> < tol then Some vol
      else if calculateVega S K T r vol q * 100 = 0 then None
      else impliedVolatilityLoop n P S K T r ty q tol (newtonUpdate P S K T r ty q vol))"
  by (simp add: Let_def newtonUpdate_def)

lemma loop_Some_converged:
  "impliedVolatilityLoop n P S K T r ty q tol vol = Some v \<Longrightarrow>
     \<bar>blackScholesPrice S K T r v ty q - P\<bar> < tol"
proof (induction n arbitrary: vol)
  case 0
  then show ?case by simp
next
  case (Suc n)
  then show ?case
    unfolding loop_Suc by (auto split: if_splits)
qed

lemma newtonUpdate_bounds:
  "0.001 \<le> newtonUpdate P S K T r ty q vol \<and> newtonUpdate P S K T r ty q vol \<le> 5"
  by (simp add: newtonUpdate_def)

lemma loop_Some_bounds:
  "impliedVolatilityLoop n P S K T r ty q tol vol = Some v \<Longrightarrow>
     0.001 \<le> vol \<Longrightarrow> vol \<le> 5 \<Longrightarrow> 0.001 \<le> v \<and> v \<le> 5"
proof (induction n arbitrary: vol)
  case 0
  then show ?case by simp
next
  case (Suc n)
  show ?case
  proof (cases "\<bar>blackScholesPrice S K T r vol ty q - P\<bar> < tol")
    case True
    with Suc.prems show ?thesis unfolding loop_Suc by simp
  next
    case False
    with Suc.prems(1) have
      "impliedVolatilityLoop n P S K T r ty q tol (newtonUpdate P S K T r ty q vol) = Some v"
      unfolding loop_Suc by (simp split: if_splits)
    then show ?thesis
      using Suc.IH newtonUpdate_bounds by blast
  qed
qed

lemma loop_None_exhausted:
  "(\<forall>k<n. \<not> \<bar>blackScholesPrice S K T r ((newtonUpdate P S K T r ty q ^^ k) vol) ty q - P\<bar> < tol)
     \<Longrightarrow> impliedVolatilityLoop n P S K T r ty q tol vol = None"
proof (induction n arbitrary: vol)
  case 0
  then show ?case by simp
next
  case (Suc n)
  from Suc.prems have first: "\<not> \<bar>blackScholesPrice S K T r vol ty q - P\<bar> < tol"
    by (metis funpow_0 zero_less_Suc)
  have rest: "\<forall>k<n. \<not> \<bar>blackScholesPrice S K T r
        ((newtonUpdate P S K T r ty q ^^ k) (newtonUpdate P S K T r ty q vol)) ty q - P\<bar> < tol"
  proof (intro allI impI)
    fix k assume "k < n"
    then have "Suc k < Suc n" by simp
    with Suc.prems show "\<not> \<bar>blackScholesPrice S K T r
        ((newtonUpdate P S K T r ty q ^^ k) (newtonUpdate P S K T r ty q vol)) ty q - P\<bar> < tol"
      unfolding funpow_swap1 [symmetric] by (metis funpow.simps(2) comp_apply funpow_swap1)
  qed
  show ?case
    unfolding loop_Suc using first Suc.IH [OF rest] by simp
qed

lemma loop_None_vega:
  "k < n \<Longrightarrow>
   (\<forall>j\<le>k. \<not> \<bar>blackScholesPrice S K T r ((newtonUpdate P S K T r ty q ^^ j) vol) ty q - P\<bar> < tol)
     \<Longrightarrow> calculateVega S K T r ((newtonUpdate P S K T r ty q ^^ k) vol) q * 100 = 0
     \<Longrightarrow> impliedVolatilityLoop n P S K T r ty q tol vol = None"
proof (induction n arbitrary: vol k)
  case 0
  then show ?case by simp
next
  case (Suc n)
  from Suc.prems(2) have first: "\<not> \<bar>blackScholesPrice S K T r vol ty q - P\<bar> < tol"
    by (metis funpow_0 le0)
  show ?case
  proof (cases k)
    case 0
    with Suc.prems(3) have "calculateVega S K T r vol q * 100 = 0" by simp
    with first show ?thesis unfolding loop_Suc by simp
  next
    case (Suc k')
    have lt: "k' < n" using Suc Suc.prems(1) by simp
    have rest: "\<forall>j\<le>k'. \<not> \<bar>blackScholesPrice S K T r
        ((newtonUpdate P S K T r ty q ^^ j) (newtonUpdate P S K T r ty q vol)) ty q - P\<bar> < tol"
    proof (intro allI impI)
      fix j assume "j \<le> k'"
      then have "Suc j \<le> k" using Suc by simp
      with Suc.prems(2) have "\<not> \<bar>blackScholesPrice S K T r
          ((newtonUpdate P S K T r ty q ^^ Suc j) vol) ty q - P\<bar> < tol" by blast
      then show "\<not> \<bar>blackScholesPrice S K T r
        ((newtonUpdate P S K T r ty q ^^ j) (newtonUpdate P S K T r ty q vol)) ty q - P\<bar> < tol"
        by (simp add: funpow_swap1)
    qed
    have v: "calculateVega S K T r
        ((newtonUpdate P S K T r ty q ^^ k') (newtonUpdate P S K T r ty q vol)) q * 100 = 0"
      using Suc.prems(3) Suc by (simp add: funpow_swap1)
    have "impliedVolatilityLoop n P S K T r ty q tol (newtonUpdate P S K T r ty q vol) = None"
      using Suc.IH [OF lt rest v] .
    then show ?thesis unfolding loop_Suc using first by simp
  qed
qed


lemma horner_step:
  fixes t u a U :: real
  assumes "0 \<le> t" and "t \<le> 1" and "\<bar>u\<bar> \<le> U"
  shows "\<bar>u * t + a\<bar> \<le> U + \<bar>a\<bar>"
proof -
  have "\<bar>u * t\<bar> = \<bar>u\<bar> * t" using assms(1) by (simp add: abs_mult)
  also have "\<dots> \<le> \<bar>u\<bar> * 1" using assms(2) by (intro mult_left_mono) simp_all
  finally have "\<bar>u * t\<bar> \<le> U" using assms(3) by simp
  then show ?thesis by linarith
qed

lemma cdfCorrection_bound:
  assumes "0 \<le> u"
  shows "\<bar>cdfCorrection u\<bar> \<le> 6"
proof -
  define x where "x = u / sqrt 2"
  define t where "t = 1 / (1 + 0.3275911 * x)"
  have x: "0 \<le> x" using assms by (simp add: x_def)
  have t: "0 \<le> t" "t \<le> 1" using x by (simp_all add: t_def)
  have e: "0 \<le> exp (- x * x)" "exp (- x * x) \<le> 1"
    using x by simp_all
  have "\<bar>1.061405429 * t + - 1.453152027\<bar> \<le> 1.061405429 + \<bar>- 1.453152027 :: real\<bar>"
    by (subst mult.commute [of _ t], subst mult.commute [of t]) (rule horner_step [OF t], simp)
  then have "\<bar>(1.061405429 * t + - 1.453152027) * t + 1.421413741\<bar>
      \<le> (1.061405429 + \<bar>- 1.453152027 :: real\<bar>) + \<bar>1.421413741 :: real\<bar>"
    by (rule horner_step [OF t])
  then have "\<bar>((1.061405429 * t + - 1.453152027) * t + 1.421413741) * t + - 0.284496736\<bar>
      \<le> ((1.061405429 + \<bar>- 1.453152027 :: real\<bar>) + \<bar>1.421413741 :: real\<bar>)
          + \<bar>- 0.284496736 :: real\<bar>"
    by (rule horner_step [OF t])
  then have "\<bar>(((1.061405429 * t + - 1.453152027) * t + 1.421413741) * t + - 0.284496736) * t
              + 0.254829592\<bar>
      \<le> (((1.061405429 + \<bar>- 1.453152027 :: real\<bar>) + \<bar>1.421413741 :: real\<bar>)
          + \<bar>- 0.284496736 :: real\<bar>) + \<bar>0.254829592 :: real\<bar>"
    by (rule horner_step [OF t])
  then have A: "\<bar>(((1.061405429 * t + - 1.453152027) * t + 1.421413741) * t + - 0.284496736) * t
              + 0.254829592\<bar> \<le> 5"
    by simp
  define A where "A = (((1.061405429 * t + - 1.453152027) * t + 1.421413741) * t
                        + - 0.284496736) * t + 0.254829592"
  have "\<bar>A * t\<bar> \<le> 5"
    using horner_step [OF t, of A 5 0] A by (simp add: A_def)
  then have "\<bar>A * t * exp (- x * x)\<bar> \<le> 5"
    using horner_step [OF e, of "A * t" 5 0] by simp
  then have "\<bar>1 - A * t * exp (- x * x)\<bar> \<le> 6"
    by linarith
  moreover have "cdfCorrection u = 1 - A * t * exp (- x * x)"
    unfolding cdfCorrection_def Let_def A_def t_def x_def by (rule refl)
  ultimately show ?thesis by simp
qed

lemma normCDF_bound: "\<bar>normCDF x\<bar> \<le> 4"
proof -
  have "\<bar>cdfCorrection \<bar>x\<bar>\<bar> \<le> 6" by (rule cdfCorrection_bound) simp
  then show ?thesis
    unfolding normCDF_correction by (simp split: if_splits) linarith+
qed


lemma price_bound:
  assumes "0 < T"
  shows "\<bar>blackScholesPrice S K T r vol ty q\<bar> \<le> 4 * (\<bar>S\<bar> * exp (- q * T) + \<bar>K\<bar> * exp (- r * T))"
proof -
  have two: "\<bar>a * x - b * y\<bar> \<le> 4 * (\<bar>a\<bar> + \<bar>b\<bar>)" if "\<bar>x\<bar> \<le> 4" and "\<bar>y\<bar> \<le> 4" for a b x y :: real
  proof -
    have le: "\<bar>a * x\<bar> \<le> \<bar>a\<bar> * 4" "\<bar>b * y\<bar> \<le> \<bar>b\<bar> * 4"
      using that by (simp_all add: abs_mult mult_left_mono)
    have "\<bar>a * x - b * y\<bar> \<le> \<bar>a * x\<bar> + \<bar>b * y\<bar>"
      by (rule abs_triangle_ineq4)
    also have "\<dots> \<le> \<bar>a\<bar> * 4 + \<bar>b\<bar> * 4"
      by (rule add_mono [OF le])
    also have "\<dots> = 4 * (\<bar>a\<bar> + \<bar>b\<bar>)"
      by (simp add: algebra_simps)
    finally show ?thesis .
  qed
  have abs: "\<bar>S * exp (- q * T)\<bar> = \<bar>S\<bar> * exp (- q * T)" "\<bar>K * exp (- r * T)\<bar> = \<bar>K\<bar> * exp (- r * T)"
    by (simp_all add: abs_mult)
  show ?thesis
  proof (cases "ty = ''call''")
    case True
    show ?thesis
      unfolding True price_call_unfold [OF assms]
      using two [OF normCDF_bound normCDF_bound, of "S * exp (- q * T)" _ "K * exp (- r * T)"]
      unfolding abs .
  next
    case False
    show ?thesis
      unfolding price_put_unfold [OF assms False]
      using two [OF normCDF_bound normCDF_bound, of "K * exp (- r * T)" _ "S * exp (- q * T)"]
      unfolding abs by (simp add: add.commute)
  qed
qed

lemma calculateImpliedVolatility_unfold:
  "0 < T \<Longrightarrow> calculateImpliedVolatility P S K T r ty q n tol
     = impliedVolatilityLoop n P S K T r ty q tol 0.3"
  by (simp add: calculateImpliedVolatility_def)

text \<open>
  Claim C6. With the default 100 iterations and tolerance \<open>10\<^sup>-\<^sup>6\<close>: the solver returns
  \<open>null\<close> whenever \<open>T \<le> 0\<close>; whenever it returns a volatility \<open>\<sigma>\<close>, the price at \<open>\<sigma>\<close>
  differs from the observed price by less than \<open>10\<^sup>-\<^sup>6\<close> and \<open>\<sigma>\<close> lies in \<open>[0.001, 5]\<close>; it
  returns \<open>null\<close> when one of the first 100 iterates is reached without convergence (the
  test made first in each pass) and has a vega of exactly 0; and it returns \<open>null\<close> when
  none of the first 100 iterates converges. The first two parts and the last hold for
  \<open>T > 0\<close> as well as \<open>T \<le> 0\<close>. Over the reals the vega of a positive spot at \<open>T > 0\<close> is
  never 0, so the third part applies there only at spot 0; in floating point it is the
  exit taken when the density underflows.
\<close>

theorem implied_volatility_solver:
  "(T \<le> 0 \<longrightarrow>
      calculateImpliedVolatility P S K T r ty q defaultMaxIterations defaultTolerance = None) \<and>
   (\<forall>\<sigma>. calculateImpliedVolatility P S K T r ty q defaultMaxIterations defaultTolerance = Some \<sigma>
      \<longrightarrow> \<bar>blackScholesPrice S K T r \<sigma> ty q - P\<bar> < 1 / 10 ^ 6 \<and> 0.001 \<le> \<sigma> \<and> \<sigma> \<le> 5.0) \<and>
   ((\<exists>k<100.
        (\<forall>j\<le>k. \<not> \<bar>blackScholesPrice S K T r (impliedVolatilityIterate j P S K T r ty q) ty q - P\<bar>
                    < 1 / 10 ^ 6) \<and>
        calculateVega S K T r (impliedVolatilityIterate k P S K T r ty q) q * 100 = 0)
      \<longrightarrow> calculateImpliedVolatility P S K T r ty q defaultMaxIterations defaultTolerance = None) \<and>
   ((\<forall>k<100. \<not> \<bar>blackScholesPrice S K T r (impliedVolatilityIterate k P S K T r ty q) ty q - P\<bar>
                  < 1 / 10 ^ 6)
      \<longrightarrow> calculateImpliedVolatility P S K T r ty q defaultMaxIterations defaultTolerance = None)"
proof (cases "T \<le> 0")
  case True
  then show ?thesis by (simp add: calculateImpliedVolatility_def)
next
  case False
  then have T: "0 < T" by simp
  note unf = calculateImpliedVolatility_unfold [OF T] defaultMaxIterations_def
    defaultTolerance_def impliedVolatilityIterate_def
  have some: "\<bar>blackScholesPrice S K T r \<sigma> ty q - P\<bar> < 1 / 10 ^ 6 \<and> 0.001 \<le> \<sigma> \<and> \<sigma> \<le> 5.0"
    if "calculateImpliedVolatility P S K T r ty q defaultMaxIterations defaultTolerance = Some \<sigma>"
    for \<sigma>
    using that loop_Some_converged [of 100 P S K T r ty q "1 / 10 ^ 6" "0.3" \<sigma>]
      loop_Some_bounds [of 100 P S K T r ty q "1 / 10 ^ 6" "0.3" \<sigma>]
    unfolding unf by simp
  have vega: "calculateImpliedVolatility P S K T r ty q defaultMaxIterations defaultTolerance = None"
    if "\<exists>k<100.
        (\<forall>j\<le>k. \<not> \<bar>blackScholesPrice S K T r (impliedVolatilityIterate j P S K T r ty q) ty q - P\<bar>
                    < 1 / 10 ^ 6) \<and>
        calculateVega S K T r (impliedVolatilityIterate k P S K T r ty q) q * 100 = 0"
    using that unfolding unf by (blast intro: loop_None_vega)
  have exhausted:
    "calculateImpliedVolatility P S K T r ty q defaultMaxIterations defaultTolerance = None"
    if "\<forall>k<100. \<not> \<bar>blackScholesPrice S K T r (impliedVolatilityIterate k P S K T r ty q) ty q - P\<bar>
                  < 1 / 10 ^ 6"
    using that unfolding unf by (rule loop_None_exhausted)
  show ?thesis
    using False some vega exhausted by blast
qed

theorem implied_volatility_solver_witness:
  "calculateImpliedVolatility 2 100 100 0 0.05 ''call'' 0 defaultMaxIterations defaultTolerance
     = None \<and>
   calculateImpliedVolatility (blackScholesPrice 100 100 1 0.05 0.3 ''call'' 0)
       100 100 1 0.05 ''call'' 0 defaultMaxIterations defaultTolerance = Some 0.3 \<and>
   \<bar>blackScholesPrice 100 100 1 0.05 0.3 ''call'' 0
       - blackScholesPrice 100 100 1 0.05 0.3 ''call'' 0\<bar> < 1 / 10 ^ 6 \<and>
   calculateVega 0 100 1 0.05 (impliedVolatilityIterate 0 1000 0 100 1 0.05 ''call'' 0) 0 * 100 = 0 \<and>
   calculateImpliedVolatility 1000 0 100 1 0.05 ''call'' 0 defaultMaxIterations defaultTolerance
     = None \<and>
   calculateImpliedVolatility 1000000 100 100 1 0.05 ''call'' 0 defaultMaxIterations
       defaultTolerance = None"
proof -
  have w1: "calculateImpliedVolatility 2 100 100 0 0.05 ''call'' 0 defaultMaxIterations
      defaultTolerance = None"
    using implied_volatility_solver [where T = 0 and P = 2 and S = 100 and K = 100
        and r = "0.05" and ty = "''call''" and q = 0]
    by simp
  have hundred: "(100::nat) = Suc 99" by simp
  have s: "calculateImpliedVolatility (blackScholesPrice 100 100 1 0.05 0.3 ''call'' 0)
       100 100 1 0.05 ''call'' 0 defaultMaxIterations defaultTolerance = Some 0.3"
    unfolding calculateImpliedVolatility_def defaultMaxIterations_def defaultTolerance_def
      hundred loop_Suc
    by simp
  have w2: "\<bar>blackScholesPrice 100 100 1 0.05 0.3 ''call'' 0
       - blackScholesPrice 100 100 1 0.05 0.3 ''call'' 0\<bar> < 1 / 10 ^ 6"
    using s implied_volatility_solver [where T = 1
        and P = "blackScholesPrice 100 100 1 0.05 0.3 ''call'' 0" and S = 100 and K = 100
        and r = "0.05" and ty = "''call''" and q = 0]
    by blast
  have b0: "\<bar>blackScholesPrice 0 100 1 0.05 vol ''call'' 0\<bar> \<le> 400" for vol
  proof -
    have "\<bar>blackScholesPrice 0 100 1 0.05 vol ''call'' 0\<bar>
        \<le> 4 * (\<bar>0\<bar> * exp (- 0 * 1) + \<bar>100\<bar> * exp (- 0.05 * 1))"
      by (rule price_bound) simp
    also have "\<dots> \<le> 400"
      by simp
    finally show ?thesis .
  qed
  have i0: "impliedVolatilityIterate 0 1000 0 100 1 0.05 ''call'' 0 = 0.3"
    by (simp add: impliedVolatilityIterate_def)
  have v0: "calculateVega 0 100 1 0.05 (impliedVolatilityIterate 0 1000 0 100 1 0.05 ''call'' 0) 0
      * 100 = 0"
    by (simp add: calculateVega_def)
  have n0: "\<forall>j\<le>0. \<not> \<bar>blackScholesPrice 0 100 1 0.05
        (impliedVolatilityIterate j 1000 0 100 1 0.05 ''call'' 0) ''call'' 0 - 1000\<bar> < 1 / 10 ^ 6"
  proof (intro allI impI)
    fix j :: nat
    show "\<not> \<bar>blackScholesPrice 0 100 1 0.05
        (impliedVolatilityIterate j 1000 0 100 1 0.05 ''call'' 0) ''call'' 0 - 1000\<bar> < 1 / 10 ^ 6"
      using b0 [of "impliedVolatilityIterate j 1000 0 100 1 0.05 ''call'' 0"] by simp
  qed
  have "\<exists>k<100::nat.
        (\<forall>j\<le>k. \<not> \<bar>blackScholesPrice 0 100 1 0.05
            (impliedVolatilityIterate j 1000 0 100 1 0.05 ''call'' 0) ''call'' 0 - 1000\<bar>
                    < 1 / 10 ^ 6) \<and>
        calculateVega 0 100 1 0.05 (impliedVolatilityIterate k 1000 0 100 1 0.05 ''call'' 0) 0
          * 100 = 0"
    using n0 v0 by (intro exI [of _ 0]) simp
  then have w3: "calculateImpliedVolatility 1000 0 100 1 0.05 ''call'' 0 defaultMaxIterations
      defaultTolerance = None"
    using implied_volatility_solver [where T = 1 and P = 1000 and S = 0 and K = 100
        and r = "0.05" and ty = "''call''" and q = 0]
    by blast
  have b1: "\<bar>blackScholesPrice 100 100 1 0.05 vol ''call'' 0\<bar> \<le> 800" for vol
  proof -
    have "\<bar>blackScholesPrice 100 100 1 0.05 vol ''call'' 0\<bar>
        \<le> 4 * (\<bar>100\<bar> * exp (- 0 * 1) + \<bar>100\<bar> * exp (- 0.05 * 1))"
      by (rule price_bound) simp
    also have "\<dots> \<le> 800"
      by simp
    finally show ?thesis .
  qed
  have "\<forall>k<100. \<not> \<bar>blackScholesPrice 100 100 1 0.05
        (impliedVolatilityIterate k 1000000 100 100 1 0.05 ''call'' 0) ''call'' 0 - 1000000\<bar>
          < 1 / 10 ^ 6"
  proof (intro allI impI)
    fix k :: nat
    show "\<not> \<bar>blackScholesPrice 100 100 1 0.05
        (impliedVolatilityIterate k 1000000 100 100 1 0.05 ''call'' 0) ''call'' 0 - 1000000\<bar>
          < 1 / 10 ^ 6"
      using b1 [of "impliedVolatilityIterate k 1000000 100 100 1 0.05 ''call'' 0"] by simp
  qed
  then have w4: "calculateImpliedVolatility 1000000 100 100 1 0.05 ''call'' 0
      defaultMaxIterations defaultTolerance = None"
    using implied_volatility_solver [where T = 1 and P = 1000000 and S = 100 and K = 100
        and r = "0.05" and ty = "''call''" and q = 0]
    by blast
  show ?thesis
    by (intro conjI w1 s w2 v0 w3 w4)
qed

subsection \<open>C4: the volatility used by an analysis\<close>

lemma calculateImpliedVolatility_nonzero:
  assumes "calculateImpliedVolatility P S K T r ty q n tol = Some \<sigma>"
  shows "\<sigma> \<noteq> 0"
proof -
  from assms have "impliedVolatilityLoop n P S K T r ty q tol 0.3 = Some \<sigma>"
    by (simp add: calculateImpliedVolatility_def split: if_splits)
  then have "0.001 \<le> \<sigma> \<and> \<sigma> \<le> 5"
    by (rule loop_Some_bounds) simp_all
  then show ?thesis by simp
qed

lemma analyzeOption_unfold:
  "analyzeOption contract marketData estimate =
     analysisAt contract marketData
       (let T = timeToExpiration (expirationDate contract) (timestamp marketData);
            v = (if \<not> truthy estimate \<and> truthy (currentPrice contract) then
                   calculateImpliedVolatility (the (currentPrice contract))
                     (underlyingPrice marketData) (strikePrice contract) T
                     (riskFreeRate marketData) (optionType contract) (dividendYield marketData)
                     defaultMaxIterations defaultTolerance
                 else estimate)
        in if \<not> truthy v then 0.3 else the v)
       (timeToExpiration (expirationDate contract) (timestamp marketData))"
  by (simp add: analyzeOption_def analysisAt_def Let_def)

text \<open>
  Claim C4. The result of \<open>analyzeOption\<close> is the record whose price and five Greeks
  are all computed at one volatility and at the time to expiry of the contract, and that
  carries both; the volatility is the one the precedence of the specification resolves:
  the estimate if it is given and truthy; else, if a current price is given, the result
  of the solver on it when it succeeds; else, or when the solver fails, 0.30. A current
  price is given when it is present and not 0: for a current price of exactly 0 the
  solver is not tried and the precedence is that of an absent price (second part).
\<close>

theorem volatility_precedence:
  "let T = timeToExpiration (expirationDate contract) (timestamp marketData);
       solve = (\<lambda>p. calculateImpliedVolatility p (underlyingPrice marketData)
                        (strikePrice contract) T (riskFreeRate marketData)
                        (optionType contract) (dividendYield marketData)
                        defaultMaxIterations defaultTolerance)
   in (currentPrice contract \<noteq> Some 0 \<longrightarrow>
         analyzeOption contract marketData estimate =
           analysisAt contract marketData
             (resolveVolatility estimate (currentPrice contract) solve) T) \<and>
      (currentPrice contract = Some 0 \<longrightarrow>
         analyzeOption contract marketData estimate =
           analysisAt contract marketData (resolveVolatility estimate None solve) T)"
proof -
  define T where "T = timeToExpiration (expirationDate contract) (timestamp marketData)"
  define solve where "solve = (\<lambda>p. calculateImpliedVolatility p (underlyingPrice marketData)
                        (strikePrice contract) T (riskFreeRate marketData)
                        (optionType contract) (dividendYield marketData)
                        defaultMaxIterations defaultTolerance)"
  define v where "v = (if \<not> truthy estimate \<and> truthy (currentPrice contract) then
                   solve (the (currentPrice contract)) else estimate)"
  have unf: "analyzeOption contract marketData estimate =
      analysisAt contract marketData (if \<not> truthy v then 0.3 else the v) T"
    unfolding analyzeOption_unfold v_def solve_def T_def Let_def ..
  have solved: "truthy (solve p) \<longleftrightarrow> solve p \<noteq> None" for p
  proof (cases "solve p")
    case None
    then show ?thesis by (simp add: truthy_def)
  next
    case (Some \<sigma>)
    then have "\<sigma> \<noteq> 0"
      unfolding solve_def by (rule calculateImpliedVolatility_nonzero)
    with Some show ?thesis by (simp add: truthy_def)
  qed
  have present: "(if \<not> truthy v then 0.3 else the v)
      = resolveVolatility estimate (currentPrice contract) solve"
    if "currentPrice contract \<noteq> Some 0"
  proof (cases "truthy estimate")
    case True
    then show ?thesis by (simp add: v_def resolveVolatility_def)
  next
    case False
    show ?thesis
    proof (cases "currentPrice contract")
      case None
      then show ?thesis using False by (simp add: v_def resolveVolatility_def truthy_def)
    next
      case (Some p)
      then have "truthy (currentPrice contract)" using that by (simp add: truthy_def)
      then have "v = solve p" using False Some by (simp add: v_def)
      then show ?thesis
        using False Some solved [of p]
        by (cases "solve p") (simp_all add: resolveVolatility_def)
    qed
  qed
  have zero: "(if \<not> truthy v then 0.3 else the v) = resolveVolatility estimate None solve"
    if "currentPrice contract = Some 0"
  proof -
    have "v = estimate" using that by (simp add: v_def truthy_def)
    then show ?thesis by (simp add: resolveVolatility_def)
  qed
  show ?thesis
    unfolding Let_def T_def [symmetric] solve_def [symmetric] unf
    using present zero by simp
qed


theorem volatility_precedence_witness:
  "currentPrice (exampleContract (Some 2)) \<noteq> Some 0 \<and>
   impliedVolatility (analyzeOption (exampleContract (Some 2)) exampleMarketData (Some 0.25))
     = 0.25 \<and>
   timeToExpiry (analyzeOption (exampleContract (Some 2)) exampleMarketData (Some 0.25))
     = timeToExpiration 1767225600000 1751328000000 \<and>
   impliedVolatility (analyzeOption (exampleContract None) exampleMarketData (Some 0)) = 0.3 \<and>
   currentPrice (exampleContract (Some 0)) = Some 0 \<and>
   impliedVolatility (analyzeOption (exampleContract (Some 0)) exampleMarketData None) = 0.3"
proof -
  have c2: "currentPrice (exampleContract (Some 2)) \<noteq> Some 0"
    and cn: "currentPrice (exampleContract None) \<noteq> Some 0"
    and c0: "currentPrice (exampleContract (Some 0)) = Some 0"
    by (simp_all add: exampleContract_def)
  have t: "expirationDate (exampleContract x) = 1767225600000"
    "timestamp exampleMarketData = 1751328000000" for x
    by (simp_all add: exampleContract_def exampleMarketData_def)
  have a: "analyzeOption (exampleContract (Some 2)) exampleMarketData (Some 0.25) =
      analysisAt (exampleContract (Some 2)) exampleMarketData 0.25
        (timeToExpiration 1767225600000 1751328000000)"
    using c2 volatility_precedence [of "exampleContract (Some 2)" exampleMarketData "Some 0.25"]
    unfolding Let_def t by (simp add: resolveVolatility_def truthy_def)
  have b: "analyzeOption (exampleContract None) exampleMarketData (Some 0) =
      analysisAt (exampleContract None) exampleMarketData 0.3
        (timeToExpiration 1767225600000 1751328000000)"
    using cn volatility_precedence [of "exampleContract None" exampleMarketData "Some 0"]
    unfolding Let_def t by (simp add: resolveVolatility_def truthy_def exampleContract_def)
  have c: "analyzeOption (exampleContract (Some 0)) exampleMarketData None =
      analysisAt (exampleContract (Some 0)) exampleMarketData 0.3
        (timeToExpiration 1767225600000 1751328000000)"
    using c0 volatility_precedence [of "exampleContract (Some 0)" exampleMarketData None]
    unfolding Let_def t by (simp add: resolveVolatility_def truthy_def)
  show ?thesis
    unfolding a b c using c2 c0 by (simp add: analysisAt_def)
qed

subsection \<open>C7: pricing and solving back\<close>







































end
